theory Spec2Isabelle
  imports Main "HOL-Library.Word"
begin

section \<open>Package admin, file user.go: the handlers Login, AuditJob and GetUserList\<close>

text \<open>
  The handlers of user.go are procedures over an iris context: they read the request,
  call collaborators declared elsewhere in the package or in other packages
  (\<open>ctx.Valid\<close>, \<open>reqBody.verify\<close>, \<open>ctx.verifyNodePermission\<close>,
  \<open>ctx.parseClaimsFromToken\<close>, \<open>rpcCall\<close>, \<open>ctx.pubEvent\<close>, \<open>user.Verify\<close>,
  the gorm queries, the jwt signer, the clock, the \<open>ctx.resp...\<close> writers) and return
  nothing. Each handler is embedded as a function from the outcomes of those calls
  (a record of parameters, one field per collaborator) and the decoded request body to
  the list of effects the handler performs, in program order. An early \<open>return\<close> of
  the source ends the list.
\<close>

subsection \<open>Data\<close>

text \<open>
  Go's \<open>error\<close> values. \<open>ErrNoRows\<close> is \<open>sql.ErrNoRows\<close>, the only error value the file
  compares against. \<open>ErrAccountOrPasswd\<close> is the value built by \<open>errors.New\<close> at line 41
  (its message says that the account or the password is not correct),
  \<open>ErrTokenGen\<close> the one built at line 59 (the access credential cannot be generated).
  \<open>ErrOther\<close> carries the message of any other error a collaborator returns.
\<close>

datatype error = ErrNoRows | ErrAccountOrPasswd | ErrTokenGen | ErrOther string

text \<open>
  \<open>CustomerClaims\<close> (lines 17 to 24). Of the embedded \<open>jwt.StandardClaims\<close> only
  \<open>ExpiresAt\<close> (an int64) is written by this file. Go's \<open>uint\<close> fields are only copied
  and compared for equality here, so they are naturals.
\<close>

record CustomerClaims =
  ExpiresAt :: "64 word"
  UserID :: nat
  Mail :: string
  Username :: string
  GroupID :: nat
  Root :: bool

text \<open>The zero value of a declared \<open>var customerClaims CustomerClaims\<close>.\<close>

definition zero_CustomerClaims :: CustomerClaims where
  "zero_CustomerClaims =
     \<lparr>ExpiresAt = 0, UserID = 0, Mail = [], Username = [], GroupID = 0, Root = False\<rparr>"

text \<open>\<open>models.User\<close>: the fields user.go reads or writes.\<close>

record User =
  user_ID :: nat
  user_Username :: string
  user_Passwd :: string
  user_GroupID :: nat
  user_Root :: bool
  user_Mail :: string

record LoginReqParams =
  req_Username :: string
  req_Passwd :: string
  req_Remember :: bool

record AuditJobReqParams =
  Addr :: string
  JobIDs :: "nat list"
  JobType :: string

text \<open>\<open>proto.AuditJobArgs\<close>, built at lines 179 and 192 with the single field \<open>JobIDs\<close>.\<close>

record AuditJobArgs =
  args_JobIDs :: "nat list"

text \<open>\<open>models.CrontabJob\<close> and \<open>models.DaemonJob\<close>: the handler reads \<open>Name\<close> only.\<close>

record CrontabJob =
  cj_ID :: nat
  cj_Name :: string

record DaemonJob =
  dj_ID :: nat
  dj_Name :: string

text \<open>
  \<open>GetUsersParams\<close>. \<open>Page\<close> and \<open>Pagesize\<close> are Go \<open>int\<close>s, taken at 64 bits: the
  handler subtracts from \<open>Page\<close>, and the subtraction wraps.
\<close>

record GetUsersParams =
  IsAll :: bool
  QueryGroupID :: nat
  Page :: "64 word"
  Pagesize :: "64 word"

text \<open>The event tags passed to \<open>ctx.pubEvent\<close> at lines 189 and 202.\<close>

datatype event_kind = event_AuditCrontabJob | event_AuditDaemonJob

text \<open>The second argument of \<open>ctx.respSucc\<close>: \<open>nil\<close>, or the map built at the call.\<close>

datatype resp_data =
    NoData
  | LoginData string nat bool string nat
  | UserListData "User list" "64 word" "64 word" "64 word"

text \<open>One constructor per response writer of the context wrapper.\<close>

datatype response =
    ParamError error
  | AuthFailed error
  | NotAllowed
  | BasicError error
  | RPCError error
  | JWTError error
  | DBError error
  | Succ string resp_data

text \<open>The gorm queries of \<open>GetUserList\<close> (lines 390 to 406).\<close>

datatype db_query =
    CountUsers
  | CountUsersOfGroup nat
  | FindUsers "64 word"
  | FindUsersOfGroup nat "64 word" "64 word"

text \<open>
  What a handler does, in order: a remote call (address, method, arguments), a published
  event (subject, kind, address, payload, and whether the audit-trail store kept it),
  a claims parse, a database query, a token signature, a response.
\<close>

datatype effect =
    RpcCall string string AuditJobArgs
  | PubEvent string event_kind string AuditJobReqParams bool
  | ParseClaims
  | DB db_query
  | JwtSign CustomerClaims string
  | Resp response

fun is_RpcCall :: "effect \<Rightarrow> bool" where
  "is_RpcCall (RpcCall a m args) = True"
| "is_RpcCall e = False"

fun is_PubEvent :: "effect \<Rightarrow> bool" where
  "is_PubEvent (PubEvent s k a p b) = True"
| "is_PubEvent e = False"

fun is_JwtSign :: "effect \<Rightarrow> bool" where
  "is_JwtSign (JwtSign c k) = True"
| "is_JwtSign e = False"

subsection \<open>Library functions the handlers call\<close>

text \<open>\<open>strings.Join(elems, sep)\<close>.\<close>

fun Join :: "string list \<Rightarrow> string \<Rightarrow> string" where
  "Join [] sep = []"
| "Join [x] sep = x"
| "Join (x # y # ys) sep = x @ sep @ Join (y # ys) sep"

text \<open>
  A \<open>time.Time\<close> is taken as its number of nanoseconds since the Unix epoch, a
  \<open>time.Duration\<close> as a number of nanoseconds. \<open>Unix\<close> is the number of whole seconds
  as an int64.
\<close>

type_synonym Time = int
type_synonym Duration = int

definition Hour :: Duration where
  "Hour = 3600 * 1000000000"

definition Add :: "Time \<Rightarrow> Duration \<Rightarrow> Time" where
  "Add t d = t + d"

definition Unix :: "Time \<Rightarrow> 64 word" where
  "Unix t = word_of_int (t div 1000000000)"

subsection \<open>Login (lines 27 to 70)\<close>

text \<open>
  The collaborators of \<open>Login\<close>. \<open>Valid_Login\<close> is the error of \<open>ctx.Valid(&reqBody)\<close>;
  \<open>user_Verify\<close> is \<open>user.Verify(username, passwd)\<close>, \<open>None\<close> for false and the
  filled-in user for true; \<open>Jwt_Expires\<close> and \<open>Jwt_SigningKey\<close> are the fields of
  \<open>cfg.Jwt\<close>; \<open>Now k\<close> is the k-th reading of \<open>time.Now()\<close> in the request;
  \<open>SignedString\<close> is \<open>jwt.NewWithClaims(HS256, claims).SignedString(key)\<close>.
\<close>

record Login_env =
  Valid_Login :: "error option"
  user_Verify :: "string \<Rightarrow> string \<Rightarrow> User option"
  Jwt_Expires :: "64 word"
  Jwt_SigningKey :: string
  Now :: "nat \<Rightarrow> Time"
  SignedString :: "CustomerClaims \<Rightarrow> string \<Rightarrow> error + string"

definition Login :: "Login_env \<Rightarrow> LoginReqParams \<Rightarrow> effect list" where
  "Login env reqBody =
     (case Valid_Login env of
        Some err \<Rightarrow> [Resp (ParamError err)]
      | None \<Rightarrow>
         (case user_Verify env (req_Username reqBody) (req_Passwd reqBody) of
            None \<Rightarrow> [Resp (AuthFailed ErrAccountOrPasswd)]
          | Some user \<Rightarrow>
             (let c1 = zero_CustomerClaims\<lparr>ExpiresAt := Jwt_Expires env + Unix (Now env 0)\<rparr>;
                  c2 = c1\<lparr>Username := req_Username reqBody\<rparr>;
                  c3 = c2\<lparr>UserID := user_ID user\<rparr>;
                  c4 = c3\<lparr>Mail := user_Mail user\<rparr>;
                  c5 = c4\<lparr>GroupID := user_GroupID user\<rparr>;
                  c6 = c5\<lparr>Root := user_Root user\<rparr>;
                  customerClaims =
                    (if req_Remember reqBody
                     then c6\<lparr>ExpiresAt := Unix (Add (Now env 1) (24 * 30 * Hour))\<rparr>
                     else c6)
              in (case SignedString env customerClaims (Jwt_SigningKey env) of
                    Inl err \<Rightarrow>
                      [JwtSign customerClaims (Jwt_SigningKey env),
                       Resp (AuthFailed ErrTokenGen)]
                  | Inr token \<Rightarrow>
                      [JwtSign customerClaims (Jwt_SigningKey env),
                       Resp (Succ [] (LoginData token (user_GroupID user) (user_Root user)
                                        (user_Mail user) (user_ID user)))]))))"

subsection \<open>AuditJob (lines 155 to 206)\<close>

text \<open>The loops of lines 186 to 188 and 199 to 201: \<open>targetNames\<close> grows by \<open>append\<close>.\<close>

fun targetNames_CrontabJob :: "string list \<Rightarrow> CrontabJob list \<Rightarrow> string list" where
  "targetNames_CrontabJob targetNames [] = targetNames"
| "targetNames_CrontabJob targetNames (v # reply) =
     targetNames_CrontabJob (targetNames @ [cj_Name v]) reply"

fun targetNames_DaemonJob :: "string list \<Rightarrow> DaemonJob list \<Rightarrow> string list" where
  "targetNames_DaemonJob targetNames [] = targetNames"
| "targetNames_DaemonJob targetNames (v # reply) =
     targetNames_DaemonJob (targetNames @ [dj_Name v]) reply"

text \<open>
  The collaborators of \<open>AuditJob\<close>. \<open>verify\<close> is the error of \<open>reqBody.verify(ctx)\<close>;
  \<open>claims\<close> is \<open>ctx.claims\<close> as line 172 reads it; \<open>verifyNodePermission\<close> is the
  method of the context wrapper; \<open>rpcCall_CrontabJob\<close> and \<open>rpcCall_DaemonJob\<close> are
  \<open>rpcCall\<close> at its two reply types (address, method, arguments; an error or the
  decoded reply); \<open>pubEvent_stored\<close> tells whether \<open>ctx.pubEvent\<close>, which returns
  nothing, managed to persist the event.
\<close>

record AuditJob_env =
  verify :: "error option"
  claims :: CustomerClaims
  verifyNodePermission :: "string \<Rightarrow> bool"
  rpcCall_CrontabJob :: "string \<Rightarrow> string \<Rightarrow> AuditJobArgs \<Rightarrow> error + CrontabJob list"
  rpcCall_DaemonJob :: "string \<Rightarrow> string \<Rightarrow> AuditJobArgs \<Rightarrow> error + DaemonJob list"
  pubEvent_stored :: "string \<Rightarrow> event_kind \<Rightarrow> string \<Rightarrow> AuditJobReqParams \<Rightarrow> bool"

text \<open>\<open>ctx.pubEvent(subject, kind, addr, payload)\<close> as a statement: one effect, no result.\<close>

definition pubEvent ::
  "AuditJob_env \<Rightarrow> string \<Rightarrow> event_kind \<Rightarrow> string \<Rightarrow> AuditJobReqParams \<Rightarrow> effect list" where
  "pubEvent env subject kind addr payload =
     [PubEvent subject kind addr payload (pubEvent_stored env subject kind addr payload)]"

text \<open>\<open>SuperGroup_ID\<close> is \<open>models.SuperGroup.ID\<close>, a variable of package models.\<close>

definition AuditJob :: "nat \<Rightarrow> AuditJob_env \<Rightarrow> AuditJobReqParams \<Rightarrow> effect list" where
  "AuditJob SuperGroup_ID env reqBody =
     (case verify env of
        Some err \<Rightarrow> [Resp (BasicError err)]
      | None \<Rightarrow>
         if \<not> verifyNodePermission env (Addr reqBody) then [Resp NotAllowed]
         else if GroupID (claims env) \<noteq> SuperGroup_ID \<and> \<not> Root (claims env)
           then [Resp NotAllowed]
         else if JobType reqBody = ''crontab'' then
           (case rpcCall_CrontabJob env (Addr reqBody) ''CrontabJob.Audit''
                   \<lparr>args_JobIDs = JobIDs reqBody\<rparr> of
              Inl err \<Rightarrow>
                [RpcCall (Addr reqBody) ''CrontabJob.Audit'' \<lparr>args_JobIDs = JobIDs reqBody\<rparr>,
                 Resp (RPCError err)]
            | Inr reply \<Rightarrow>
                RpcCall (Addr reqBody) ''CrontabJob.Audit'' \<lparr>args_JobIDs = JobIDs reqBody\<rparr>
                # pubEvent env (Join (targetNames_CrontabJob [] reply) '','')
                    event_AuditCrontabJob (Addr reqBody) reqBody
                @ [Resp (Succ [] NoData)])
         else
           (case rpcCall_DaemonJob env (Addr reqBody) ''DaemonJob.Audit''
                   \<lparr>args_JobIDs = JobIDs reqBody\<rparr> of
              Inl err \<Rightarrow>
                [RpcCall (Addr reqBody) ''DaemonJob.Audit'' \<lparr>args_JobIDs = JobIDs reqBody\<rparr>,
                 Resp (RPCError err)]
            | Inr reply \<Rightarrow>
                RpcCall (Addr reqBody) ''DaemonJob.Audit'' \<lparr>args_JobIDs = JobIDs reqBody\<rparr>
                # pubEvent env (Join (targetNames_DaemonJob [] reply) '','')
                    event_AuditDaemonJob (Addr reqBody) reqBody
                @ [Resp (Succ [] NoData)]))"

subsection \<open>GetUserList (lines 358 to 419)\<close>

text \<open>
  The collaborators of \<open>GetUserList\<close>. \<open>Valid_GetUserList\<close> is the error of
  \<open>ctx.Valid(&reqBody)\<close>; \<open>parseClaimsFromToken\<close> is an error or the claims it leaves
  in \<open>ctx.claims\<close>; each query gives its \<open>Error\<close> field and the value it stored
  (\<open>total\<close> or \<open>userList\<close>).
\<close>

record GetUserList_env =
  Valid_GetUserList :: "error option"
  parseClaimsFromToken :: "error + CustomerClaims"
  runCount :: "db_query \<Rightarrow> error option \<times> 64 word"
  runFind :: "db_query \<Rightarrow> error option \<times> User list"

text \<open>
  The test \<open>err != nil && err != sql.ErrNoRows\<close> of lines 397 and 408: the error the
  handler reports, if the test holds.
\<close>

definition db_failed :: "error option \<Rightarrow> error option" where
  "db_failed err =
     (case err of
        None \<Rightarrow> None
      | Some e \<Rightarrow> if e \<noteq> ErrNoRows then Some e else None)"

text \<open>
  Lines 390 to 418: the count, the page of users and the answer, for the request body as
  line 387 left it. \<open>Page - 1\<close> is the subtraction of a 64-bit \<open>int\<close>: from the least
  value it wraps to the greatest.
\<close>

definition GetUserList_queries :: "GetUserList_env \<Rightarrow> GetUsersParams \<Rightarrow> effect list" where
  "GetUserList_queries env reqBody =
     (let q1 = (if IsAll reqBody then CountUsers
                else CountUsersOfGroup (QueryGroupID reqBody));
          (err1, total) = runCount env q1
      in case db_failed err1 of
           Some e1 \<Rightarrow> [DB q1, Resp (BasicError e1)]
         | None \<Rightarrow>
           (let q2 = (if IsAll reqBody then FindUsers (Pagesize reqBody)
                      else FindUsersOfGroup (QueryGroupID reqBody)
                             (Page reqBody - 1) (Pagesize reqBody));
                (err2, userList) = runFind env q2
            in case db_failed err2 of
                 Some e2 \<Rightarrow> [DB q1, DB q2, Resp (DBError e2)]
               | None \<Rightarrow>
                   [DB q1, DB q2,
                    Resp (Succ [] (UserListData userList total
                                     (Page reqBody) (Pagesize reqBody)))]))"

text \<open>
  Lines 371 to 388: the claims parse, the two authorization checks and the default of
  \<open>QueryGroupID\<close>; then the queries.
\<close>

definition GetUserList_from_claims ::
  "nat \<Rightarrow> GetUserList_env \<Rightarrow> GetUsersParams \<Rightarrow> effect list" where
  "GetUserList_from_claims SuperGroup_ID env reqBody =
     ParseClaims #
     (case parseClaimsFromToken env of
        Inl err \<Rightarrow> [Resp (JWTError err)]
      | Inr cl \<Rightarrow>
         if IsAll reqBody \<and> GroupID cl \<noteq> SuperGroup_ID
           then [Resp NotAllowed]
         else if \<not> IsAll reqBody \<and> QueryGroupID reqBody \<noteq> GroupID cl
                 \<and> GroupID cl \<noteq> SuperGroup_ID
           then [Resp NotAllowed]
         else GetUserList_queries env
                (if QueryGroupID reqBody = 0
                 then reqBody\<lparr>QueryGroupID := GroupID cl\<rparr> else reqBody))"

text \<open>
  Lines 367 to 369 write the parameter error and have no \<open>return\<close>: the handler goes on
  to line 371 whatever \<open>ctx.Valid\<close> answered.
\<close>

definition GetUserList :: "nat \<Rightarrow> GetUserList_env \<Rightarrow> GetUsersParams \<Rightarrow> effect list" where
  "GetUserList SuperGroup_ID env reqBody =
     (case Valid_GetUserList env of
        Some err \<Rightarrow> [Resp (ParamError err)]
      | None \<Rightarrow> [])
     @ GetUserList_from_claims SuperGroup_ID env reqBody"

subsection \<open>The authorization predicates and the credential store of the specification\<close>

text \<open>
  Modelled from the spec: \<open>IsSuper\<close>, section 4.2. The predicate is not in user.go; the
  spec gives it as true iff \<open>claims.GroupID == SuperGroupID\<close>.
\<close>

definition IsSuper :: "nat \<Rightarrow> CustomerClaims \<Rightarrow> bool" where
  "IsSuper SuperGroupID cl = (GroupID cl = SuperGroupID)"

text \<open>
  Modelled from the spec: \<open>OwnsGroup\<close>, section 4.2, true iff
  \<open>claims.GroupID == targetGroupID OR IsSuper(claims)\<close>.
\<close>

definition OwnsGroup :: "nat \<Rightarrow> CustomerClaims \<Rightarrow> nat \<Rightarrow> bool" where
  "OwnsGroup SuperGroupID cl targetGroupID =
     (GroupID cl = targetGroupID \<or> IsSuper SuperGroupID cl)"

text \<open>
  Modelled from the spec: \<open>OwnsNode\<close>, section 4.2. It resolves the owning group of the
  address through the node lookup (\<open>ResolveNodeGroup\<close>, section 6), delegates to
  \<open>OwnsGroup\<close>, and is false when the node cannot be resolved. The body of
  \<open>ctx.verifyNodePermission\<close> is not in user.go.
\<close>

definition OwnsNode :: "(string \<rightharpoonup> nat) \<Rightarrow> nat \<Rightarrow> CustomerClaims \<Rightarrow> string \<Rightarrow> bool" where
  "OwnsNode ResolveNodeGroup SuperGroupID cl addr =
     (case ResolveNodeGroup addr of
        None \<Rightarrow> False
      | Some g \<Rightarrow> OwnsGroup SuperGroupID cl g)"

text \<open>
  Modelled from the spec: \<open>user.Verify\<close> of package models, whose body is not in user.go.
  Section 4.5: it looks the user up by name in the credential store
  (\<open>FindByUsername\<close>), verifies the password with the store's routine
  (\<open>VerifyPassword\<close>), and fails when the lookup fails or the verification fails.
\<close>

definition Verify_in_store ::
  "(string \<rightharpoonup> User) \<Rightarrow> (User \<Rightarrow> string \<Rightarrow> bool) \<Rightarrow> string \<Rightarrow> string \<Rightarrow> User option" where
  "Verify_in_store FindByUsername VerifyPassword username passwd =
     (case FindByUsername username of
        None \<Rightarrow> None
      | Some profile \<Rightarrow> if VerifyPassword profile passwd then Some profile else None)"

subsection \<open>Concrete requests\<close>

text \<open>The callers and the node of the scenarios; the Super Group has ID 1.\<close>

definition super_ID :: nat where
  "super_ID = 1"

definition alice :: CustomerClaims where
  "alice = \<lparr>ExpiresAt = 0, UserID = 12, Mail = ''alice@example.org'', Username = ''alice'',
             GroupID = 7, Root = False\<rparr>"

definition carol :: CustomerClaims where
  "carol = \<lparr>ExpiresAt = 0, UserID = 13, Mail = ''carol@example.org'', Username = ''carol'',
             GroupID = 9, Root = False\<rparr>"

definition rootuser :: CustomerClaims where
  "rootuser = \<lparr>ExpiresAt = 0, UserID = 14, Mail = ''root@example.org'', Username = ''root'',
                GroupID = 9, Root = True\<rparr>"

definition node9 :: "string \<rightharpoonup> nat" where
  "node9 = [''10.0.0.9:20001'' \<mapsto> 9]"

text \<open>
  A node that answers \<open>CrontabJob.Audit\<close> with the jobs backup and cleanup, and whose
  \<open>DaemonJob.Audit\<close> times out; the audit-trail store refuses every event.
\<close>

definition node_env :: "CustomerClaims \<Rightarrow> AuditJob_env" where
  "node_env cl =
     \<lparr>verify = None,
      claims = cl,
      verifyNodePermission = OwnsNode node9 super_ID cl,
      rpcCall_CrontabJob = (\<lambda>addr method args.
         if addr = ''10.0.0.9:20001'' \<and> method = ''CrontabJob.Audit''
         then Inr [\<lparr>cj_ID = 1, cj_Name = ''backup''\<rparr>, \<lparr>cj_ID = 2, cj_Name = ''cleanup''\<rparr>]
         else Inl (ErrOther ''no such method'')),
      rpcCall_DaemonJob = (\<lambda>addr method args. Inl (ErrOther ''i/o timeout'')),
      pubEvent_stored = (\<lambda>subject kind addr payload. False)\<rparr>"

definition audit_req :: "string \<Rightarrow> AuditJobReqParams" where
  "audit_req jobType = \<lparr>Addr = ''10.0.0.9:20001'', JobIDs = [1, 2], JobType = jobType\<rparr>"

text \<open>
  The credential store holds alice alone; a password verifies when it is the stored one.
  The clock reads 1700000000.9 s at the first call of \<open>time.Now\<close> and 0.2 s later at
  the second; the default session lasts 3600 s.
\<close>

definition alice_profile :: User where
  "alice_profile = \<lparr>user_ID = 12, user_Username = ''alice'', user_Passwd = ''s3cret'',
                     user_GroupID = 7, user_Root = False, user_Mail = ''alice@example.org''\<rparr>"

definition store :: "string \<rightharpoonup> User" where
  "store = [''alice'' \<mapsto> alice_profile]"

definition login_env :: Login_env where
  "login_env =
     \<lparr>Valid_Login = None,
      user_Verify = Verify_in_store store (\<lambda>profile passwd. user_Passwd profile = passwd),
      Jwt_Expires = 3600,
      Jwt_SigningKey = ''key'',
      Now = (\<lambda>k. 1700000000900000000 + 200000000 * int k),
      SignedString = (\<lambda>cl key. Inr (''token of '' @ Username cl))\<rparr>"

definition login_req :: "string \<Rightarrow> string \<Rightarrow> bool \<Rightarrow> LoginReqParams" where
  "login_req username passwd remember =
     \<lparr>req_Username = username, req_Passwd = passwd, req_Remember = remember\<rparr>"

text \<open>A member of the Super Group without the root flag, and a user database that answers.\<close>

definition superuser :: CustomerClaims where
  "superuser = \<lparr>ExpiresAt = 0, UserID = 1, Mail = ''admin@example.org'', Username = ''admin'',
                 GroupID = 1, Root = False\<rparr>"

definition userlist_env :: "error option \<Rightarrow> CustomerClaims \<Rightarrow> GetUserList_env" where
  "userlist_env valid cl =
     \<lparr>Valid_GetUserList = valid,
      parseClaimsFromToken = Inr cl,
      runCount = (\<lambda>q. (None, 3)),
      runFind = (\<lambda>q. (None, [alice_profile]))\<rparr>"

definition users_req :: "bool \<Rightarrow> nat \<Rightarrow> GetUsersParams" where
  "users_req isAll gid = \<lparr>IsAll = isAll, QueryGroupID = gid, Page = 1, Pagesize = 10\<rparr>"

section \<open>AuditJob\<close>

lemma targetNames_CrontabJob_append:
  "targetNames_CrontabJob acc reply = acc @ map cj_Name reply"
  by (induction reply arbitrary: acc) simp_all

lemma targetNames_DaemonJob_append:
  "targetNames_DaemonJob acc reply = acc @ map dj_Name reply"
  by (induction reply arbitrary: acc) simp_all

lemma node_env_fields:
  "verify (node_env cl) = None"
  "claims (node_env cl) = cl"
  "verifyNodePermission (node_env cl) = OwnsNode node9 super_ID cl"
  by (simp_all add: node_env_def)

lemma OwnsNode_alice: "\<not> OwnsNode node9 super_ID alice ''10.0.0.9:20001''"
  by (simp add: OwnsNode_def OwnsGroup_def IsSuper_def node9_def alice_def super_ID_def)

lemma OwnsNode_carol: "OwnsNode node9 super_ID carol ''10.0.0.9:20001''"
  by (simp add: OwnsNode_def OwnsGroup_def IsSuper_def node9_def carol_def super_ID_def)

lemma OwnsNode_rootuser: "OwnsNode node9 super_ID rootuser ''10.0.0.9:20001''"
  by (simp add: OwnsNode_def OwnsGroup_def IsSuper_def node9_def rootuser_def super_ID_def)

text \<open>
  C1. A request whose caller fails the node-permission check performs no remote call and
  publishes no event; the check is reached when \<open>reqBody.verify\<close> has passed, and the
  handler then answers with the not-allowed response and nothing else.
\<close>

theorem AuditJob_node_permission_denied:
  assumes "\<not> verifyNodePermission env (Addr reqBody)"
  shows "(verify env = None \<longrightarrow> AuditJob SG env reqBody = [Resp NotAllowed])
         \<and> (\<forall>e \<in> set (AuditJob SG env reqBody). \<not> is_RpcCall e \<and> \<not> is_PubEvent e)"
  using assms by (simp add: AuditJob_def split: option.split)

theorem AuditJob_node_permission_denied_witness:
  "\<not> verifyNodePermission (node_env alice) (Addr (audit_req ''crontab''))
   \<and> verify (node_env alice) = None
   \<and> AuditJob super_ID (node_env alice) (audit_req ''crontab'') = [Resp NotAllowed]"
proof -
  have h: "\<not> verifyNodePermission (node_env alice) (Addr (audit_req ''crontab''))"
    by (simp add: node_env_fields audit_req_def OwnsNode_alice)
  have v: "verify (node_env alice) = None"
    by (simp add: node_env_fields)
  from AuditJob_node_permission_denied [OF h, of super_ID] h v show ?thesis
    by simp
qed

lemma node_env_rpc:
  "rpcCall_CrontabJob (node_env cl) ''10.0.0.9:20001'' ''CrontabJob.Audit'' args =
     Inr [\<lparr>cj_ID = 1, cj_Name = ''backup''\<rparr>, \<lparr>cj_ID = 2, cj_Name = ''cleanup''\<rparr>]"
  "rpcCall_DaemonJob (node_env cl) addr method args = Inl (ErrOther ''i/o timeout'')"
  "pubEvent_stored (node_env cl) subject kind addr payload = False"
  by (simp_all add: node_env_def)

lemma audit_req_fields:
  "Addr (audit_req t) = ''10.0.0.9:20001''"
  "JobIDs (audit_req t) = [1, 2]"
  "JobType (audit_req t) = t"
  by (simp_all add: audit_req_def)

lemma rootuser_privileged: "GroupID rootuser = super_ID \<or> Root rootuser"
  by (simp add: rootuser_def)

lemma carol_not_privileged: "GroupID carol \<noteq> super_ID \<and> \<not> Root carol"
  by (simp add: carol_def super_ID_def)

text \<open>
  What \<open>AuditJob\<close> does once the three guards of lines 162 to 175 have let the request
  through, one equation per job type.
\<close>

lemma AuditJob_crontab:
  assumes "verify env = None" and "verifyNodePermission env (Addr reqBody)"
    and "GroupID (claims env) = SG \<or> Root (claims env)"
    and "JobType reqBody = ''crontab''"
  shows "AuditJob SG env reqBody =
     (case rpcCall_CrontabJob env (Addr reqBody) ''CrontabJob.Audit''
             \<lparr>args_JobIDs = JobIDs reqBody\<rparr> of
        Inl err \<Rightarrow>
          [RpcCall (Addr reqBody) ''CrontabJob.Audit'' \<lparr>args_JobIDs = JobIDs reqBody\<rparr>,
           Resp (RPCError err)]
      | Inr reply \<Rightarrow>
          [RpcCall (Addr reqBody) ''CrontabJob.Audit'' \<lparr>args_JobIDs = JobIDs reqBody\<rparr>,
           PubEvent (Join (map cj_Name reply) '','') event_AuditCrontabJob (Addr reqBody) reqBody
             (pubEvent_stored env (Join (map cj_Name reply) '','') event_AuditCrontabJob
                (Addr reqBody) reqBody),
           Resp (Succ [] NoData)])"
  using assms
  by (auto simp add: AuditJob_def pubEvent_def targetNames_CrontabJob_append split: sum.split)

lemma AuditJob_daemon:
  assumes "verify env = None" and "verifyNodePermission env (Addr reqBody)"
    and "GroupID (claims env) = SG \<or> Root (claims env)"
    and "JobType reqBody \<noteq> ''crontab''"
  shows "AuditJob SG env reqBody =
     (case rpcCall_DaemonJob env (Addr reqBody) ''DaemonJob.Audit''
             \<lparr>args_JobIDs = JobIDs reqBody\<rparr> of
        Inl err \<Rightarrow>
          [RpcCall (Addr reqBody) ''DaemonJob.Audit'' \<lparr>args_JobIDs = JobIDs reqBody\<rparr>,
           Resp (RPCError err)]
      | Inr reply \<Rightarrow>
          [RpcCall (Addr reqBody) ''DaemonJob.Audit'' \<lparr>args_JobIDs = JobIDs reqBody\<rparr>,
           PubEvent (Join (map dj_Name reply) '','') event_AuditDaemonJob (Addr reqBody) reqBody
             (pubEvent_stored env (Join (map dj_Name reply) '','') event_AuditDaemonJob
                (Addr reqBody) reqBody),
           Resp (Succ [] NoData)])"
  using assms
  by (auto simp add: AuditJob_def pubEvent_def targetNames_DaemonJob_append split: sum.split)

text \<open>
  C2. When the remote call of the request (\<open>CrontabJob.Audit\<close> for the job type crontab,
  \<open>DaemonJob.Audit\<close> otherwise) returns an error, the handler issues that call, answers
  with the RPC error carrying it, and publishes no event.
\<close>

theorem AuditJob_rpc_error:
  assumes "verify env = None" and "verifyNodePermission env (Addr reqBody)"
    and "GroupID (claims env) = SG \<or> Root (claims env)"
    and "JobType reqBody = ''crontab'' \<Longrightarrow>
           rpcCall_CrontabJob env (Addr reqBody) ''CrontabJob.Audit''
             \<lparr>args_JobIDs = JobIDs reqBody\<rparr> = Inl err"
    and "JobType reqBody \<noteq> ''crontab'' \<Longrightarrow>
           rpcCall_DaemonJob env (Addr reqBody) ''DaemonJob.Audit''
             \<lparr>args_JobIDs = JobIDs reqBody\<rparr> = Inl err"
  shows "AuditJob SG env reqBody =
           [RpcCall (Addr reqBody)
              (if JobType reqBody = ''crontab'' then ''CrontabJob.Audit'' else ''DaemonJob.Audit'')
              \<lparr>args_JobIDs = JobIDs reqBody\<rparr>,
            Resp (RPCError err)]
         \<and> filter is_PubEvent (AuditJob SG env reqBody) = []"
proof (cases "JobType reqBody = ''crontab''")
  case True
  with assms(4) AuditJob_crontab [OF assms(1,2,3) True] show ?thesis
    by simp
next
  case False
  with assms(5) AuditJob_daemon [OF assms(1,2,3) False] show ?thesis
    by simp
qed

theorem AuditJob_rpc_error_witness:
  "verify (node_env rootuser) = None
   \<and> verifyNodePermission (node_env rootuser) (Addr (audit_req ''daemon''))
   \<and> (GroupID (claims (node_env rootuser)) = super_ID \<or> Root (claims (node_env rootuser)))
   \<and> JobType (audit_req ''daemon'') \<noteq> ''crontab''
   \<and> rpcCall_DaemonJob (node_env rootuser) (Addr (audit_req ''daemon'')) ''DaemonJob.Audit''
        \<lparr>args_JobIDs = JobIDs (audit_req ''daemon'')\<rparr> = Inl (ErrOther ''i/o timeout'')
   \<and> AuditJob super_ID (node_env rootuser) (audit_req ''daemon'') =
        [RpcCall ''10.0.0.9:20001'' ''DaemonJob.Audit'' \<lparr>args_JobIDs = [1, 2]\<rparr>,
         Resp (RPCError (ErrOther ''i/o timeout''))]
   \<and> filter is_PubEvent (AuditJob super_ID (node_env rootuser) (audit_req ''daemon'')) = []"
proof -
  have h1: "verify (node_env rootuser) = None"
    by (simp add: node_env_fields)
  have h2: "verifyNodePermission (node_env rootuser) (Addr (audit_req ''daemon''))"
    by (simp add: node_env_fields audit_req_fields OwnsNode_rootuser)
  have h3: "GroupID (claims (node_env rootuser)) = super_ID \<or> Root (claims (node_env rootuser))"
    by (simp add: node_env_fields rootuser_privileged)
  have h4: "JobType (audit_req ''daemon'') \<noteq> ''crontab''"
    by (simp add: audit_req_fields)
  have h5: "rpcCall_DaemonJob (node_env rootuser) (Addr (audit_req ''daemon'')) ''DaemonJob.Audit''
        \<lparr>args_JobIDs = JobIDs (audit_req ''daemon'')\<rparr> = Inl (ErrOther ''i/o timeout'')"
    by (simp add: node_env_rpc)
  from AuditJob_rpc_error [OF h1 h2 h3, of "ErrOther ''i/o timeout''"] h1 h2 h3 h4 h5
  show ?thesis
    by (simp add: audit_req_fields)
qed

text \<open>
  C3, as the code has it. Passing the node-permission check is not enough: line 172
  also asks that the caller is in the Super Group or has the root flag. With that the
  remote call is issued; without it the handler answers not allowed and calls nothing.
\<close>

theorem AuditJob_dispatch_needs_privilege:
  assumes "verify env = None" and "verifyNodePermission env (Addr reqBody)"
  shows "(GroupID (claims env) = SG \<or> Root (claims env) \<longrightarrow>
            (\<exists>rest. AuditJob SG env reqBody =
               RpcCall (Addr reqBody)
                 (if JobType reqBody = ''crontab'' then ''CrontabJob.Audit''
                  else ''DaemonJob.Audit'')
                 \<lparr>args_JobIDs = JobIDs reqBody\<rparr> # rest))
         \<and> (GroupID (claims env) \<noteq> SG \<and> \<not> Root (claims env) \<longrightarrow>
              AuditJob SG env reqBody = [Resp NotAllowed])"
proof (intro conjI impI)
  assume priv: "GroupID (claims env) = SG \<or> Root (claims env)"
  show "\<exists>rest. AuditJob SG env reqBody =
               RpcCall (Addr reqBody)
                 (if JobType reqBody = ''crontab'' then ''CrontabJob.Audit''
                  else ''DaemonJob.Audit'')
                 \<lparr>args_JobIDs = JobIDs reqBody\<rparr> # rest"
  proof (cases "JobType reqBody = ''crontab''")
    case True
    from AuditJob_crontab [OF assms priv True] True show ?thesis
      by (simp split: sum.split)
  next
    case False
    from AuditJob_daemon [OF assms priv False] False show ?thesis
      by (simp split: sum.split)
  qed
next
  assume "GroupID (claims env) \<noteq> SG \<and> \<not> Root (claims env)"
  with assms show "AuditJob SG env reqBody = [Resp NotAllowed]"
    by (simp add: AuditJob_def)
qed

theorem AuditJob_dispatch_needs_privilege_witness:
  "verify (node_env rootuser) = None
   \<and> verifyNodePermission (node_env rootuser) (Addr (audit_req ''crontab''))
   \<and> (GroupID (claims (node_env rootuser)) = super_ID \<or> Root (claims (node_env rootuser)))
   \<and> (\<exists>rest. AuditJob super_ID (node_env rootuser) (audit_req ''crontab'') =
         RpcCall ''10.0.0.9:20001'' ''CrontabJob.Audit'' \<lparr>args_JobIDs = [1, 2]\<rparr> # rest)
   \<and> verify (node_env carol) = None
   \<and> verifyNodePermission (node_env carol) (Addr (audit_req ''daemon''))
   \<and> GroupID (claims (node_env carol)) \<noteq> super_ID \<and> \<not> Root (claims (node_env carol))
   \<and> AuditJob super_ID (node_env carol) (audit_req ''daemon'') = [Resp NotAllowed]"
proof -
  have h1: "verify (node_env rootuser) = None"
    by (simp add: node_env_fields)
  have h2: "verifyNodePermission (node_env rootuser) (Addr (audit_req ''crontab''))"
    by (simp add: node_env_fields audit_req_fields OwnsNode_rootuser)
  have h3: "GroupID (claims (node_env rootuser)) = super_ID \<or> Root (claims (node_env rootuser))"
    by (simp add: node_env_fields rootuser_privileged)
  have k1: "verify (node_env carol) = None"
    by (simp add: node_env_fields)
  have k2: "verifyNodePermission (node_env carol) (Addr (audit_req ''daemon''))"
    by (simp add: node_env_fields audit_req_fields OwnsNode_carol)
  have k3: "GroupID (claims (node_env carol)) \<noteq> super_ID \<and> \<not> Root (claims (node_env carol))"
    by (simp add: node_env_fields carol_not_privileged)
  from AuditJob_dispatch_needs_privilege [OF h1 h2, of super_ID]
    AuditJob_dispatch_needs_privilege [OF k1 k2, of super_ID] h1 h2 h3 k1 k2 k3
  show ?thesis
    by (simp add: audit_req_fields)
qed

text \<open>
  C3, as the specification states it, fails: carol belongs to group 9, which owns the
  node, so \<open>OwnsNode\<close> holds for her and the node-permission check passes; she is neither
  in the Super Group nor root, and the handler rejects her request without dispatching.
\<close>

theorem AuditJob_owner_rejected_counterexample:
  "OwnsNode node9 super_ID carol (Addr (audit_req ''crontab''))
   \<and> verify (node_env carol) = None
   \<and> verifyNodePermission (node_env carol) (Addr (audit_req ''crontab''))
   \<and> AuditJob super_ID (node_env carol) (audit_req ''crontab'') = [Resp NotAllowed]"
  using carol_not_privileged
  by (simp add: AuditJob_def node_env_fields audit_req_fields OwnsNode_carol)

text \<open>
  C5. After a successful remote call the handler publishes one event; its subject is the
  names of the returned job records, in the order of the reply, joined with a comma.
\<close>

theorem AuditJob_event_subject:
  assumes "verify env = None" and "verifyNodePermission env (Addr reqBody)"
    and "GroupID (claims env) = SG \<or> Root (claims env)"
  shows "(JobType reqBody = ''crontab'' \<longrightarrow>
            rpcCall_CrontabJob env (Addr reqBody) ''CrontabJob.Audit''
              \<lparr>args_JobIDs = JobIDs reqBody\<rparr> = Inr creply \<longrightarrow>
            filter is_PubEvent (AuditJob SG env reqBody) =
              [PubEvent (Join (map cj_Name creply) '','') event_AuditCrontabJob
                 (Addr reqBody) reqBody
                 (pubEvent_stored env (Join (map cj_Name creply) '','')
                    event_AuditCrontabJob (Addr reqBody) reqBody)])
         \<and> (JobType reqBody \<noteq> ''crontab'' \<longrightarrow>
              rpcCall_DaemonJob env (Addr reqBody) ''DaemonJob.Audit''
                \<lparr>args_JobIDs = JobIDs reqBody\<rparr> = Inr dreply \<longrightarrow>
              filter is_PubEvent (AuditJob SG env reqBody) =
                [PubEvent (Join (map dj_Name dreply) '','') event_AuditDaemonJob
                   (Addr reqBody) reqBody
                   (pubEvent_stored env (Join (map dj_Name dreply) '','')
                      event_AuditDaemonJob (Addr reqBody) reqBody)])"
proof (intro conjI impI)
  assume t: "JobType reqBody = ''crontab''"
    and r: "rpcCall_CrontabJob env (Addr reqBody) ''CrontabJob.Audit''
              \<lparr>args_JobIDs = JobIDs reqBody\<rparr> = Inr creply"
  from AuditJob_crontab [OF assms t] r
  show "filter is_PubEvent (AuditJob SG env reqBody) =
              [PubEvent (Join (map cj_Name creply) '','') event_AuditCrontabJob
                 (Addr reqBody) reqBody
                 (pubEvent_stored env (Join (map cj_Name creply) '','')
                    event_AuditCrontabJob (Addr reqBody) reqBody)]"
    by simp
next
  assume t: "JobType reqBody \<noteq> ''crontab''"
    and r: "rpcCall_DaemonJob env (Addr reqBody) ''DaemonJob.Audit''
                \<lparr>args_JobIDs = JobIDs reqBody\<rparr> = Inr dreply"
  from AuditJob_daemon [OF assms t] r
  show "filter is_PubEvent (AuditJob SG env reqBody) =
                [PubEvent (Join (map dj_Name dreply) '','') event_AuditDaemonJob
                   (Addr reqBody) reqBody
                   (pubEvent_stored env (Join (map dj_Name dreply) '','')
                      event_AuditDaemonJob (Addr reqBody) reqBody)]"
    by simp
qed

theorem AuditJob_event_subject_witness:
  "verify (node_env rootuser) = None
   \<and> verifyNodePermission (node_env rootuser) (Addr (audit_req ''crontab''))
   \<and> (GroupID (claims (node_env rootuser)) = super_ID \<or> Root (claims (node_env rootuser)))
   \<and> JobType (audit_req ''crontab'') = ''crontab''
   \<and> rpcCall_CrontabJob (node_env rootuser) (Addr (audit_req ''crontab'')) ''CrontabJob.Audit''
        \<lparr>args_JobIDs = JobIDs (audit_req ''crontab'')\<rparr> =
        Inr [\<lparr>cj_ID = 1, cj_Name = ''backup''\<rparr>, \<lparr>cj_ID = 2, cj_Name = ''cleanup''\<rparr>]
   \<and> filter is_PubEvent (AuditJob super_ID (node_env rootuser) (audit_req ''crontab'')) =
        [PubEvent ''backup,cleanup'' event_AuditCrontabJob ''10.0.0.9:20001''
           (audit_req ''crontab'') False]"
proof -
  have h1: "verify (node_env rootuser) = None"
    by (simp add: node_env_fields)
  have h2: "verifyNodePermission (node_env rootuser) (Addr (audit_req ''crontab''))"
    by (simp add: node_env_fields audit_req_fields OwnsNode_rootuser)
  have h3: "GroupID (claims (node_env rootuser)) = super_ID \<or> Root (claims (node_env rootuser))"
    by (simp add: node_env_fields rootuser_privileged)
  have h4: "JobType (audit_req ''crontab'') = ''crontab''"
    by (simp add: audit_req_fields)
  have h5: "rpcCall_CrontabJob (node_env rootuser) (Addr (audit_req ''crontab''))
        ''CrontabJob.Audit'' \<lparr>args_JobIDs = JobIDs (audit_req ''crontab'')\<rparr> =
        Inr [\<lparr>cj_ID = 1, cj_Name = ''backup''\<rparr>, \<lparr>cj_ID = 2, cj_Name = ''cleanup''\<rparr>]"
    by (simp add: node_env_rpc audit_req_fields)
  from AuditJob_event_subject [OF h1 h2 h3,
      of "[\<lparr>cj_ID = 1, cj_Name = ''backup''\<rparr>, \<lparr>cj_ID = 2, cj_Name = ''cleanup''\<rparr>]"]
    h1 h2 h3 h4 h5
  show ?thesis
    by (simp add: audit_req_fields node_env_rpc)
qed

text \<open>
  C8. After a successful remote call the handler publishes the event and then answers
  success, whatever the audit-trail store did with the event: \<open>ctx.pubEvent\<close> is a
  statement whose outcome the handler does not read.
\<close>

theorem AuditJob_success_ignores_event_store:
  assumes "verify env = None" and "verifyNodePermission env (Addr reqBody)"
    and "GroupID (claims env) = SG \<or> Root (claims env)"
    and "JobType reqBody = ''crontab'' \<Longrightarrow>
           rpcCall_CrontabJob env (Addr reqBody) ''CrontabJob.Audit''
             \<lparr>args_JobIDs = JobIDs reqBody\<rparr> = Inr creply"
    and "JobType reqBody \<noteq> ''crontab'' \<Longrightarrow>
           rpcCall_DaemonJob env (Addr reqBody) ''DaemonJob.Audit''
             \<lparr>args_JobIDs = JobIDs reqBody\<rparr> = Inr dreply"
  shows "\<exists>method subject kind.
           AuditJob SG (env\<lparr>pubEvent_stored := stored\<rparr>) reqBody =
             [RpcCall (Addr reqBody) method \<lparr>args_JobIDs = JobIDs reqBody\<rparr>,
              PubEvent subject kind (Addr reqBody) reqBody
                (stored subject kind (Addr reqBody) reqBody),
              Resp (Succ [] NoData)]"
proof (cases "JobType reqBody = ''crontab''")
  case True
  have "AuditJob SG (env\<lparr>pubEvent_stored := stored\<rparr>) reqBody =
     [RpcCall (Addr reqBody) ''CrontabJob.Audit'' \<lparr>args_JobIDs = JobIDs reqBody\<rparr>,
      PubEvent (Join (map cj_Name creply) '','') event_AuditCrontabJob (Addr reqBody) reqBody
        (stored (Join (map cj_Name creply) '','') event_AuditCrontabJob (Addr reqBody) reqBody),
      Resp (Succ [] NoData)]"
    using assms(1,2,3) assms(4) [OF True] True
    by (simp add: AuditJob_crontab)
  then show ?thesis by blast
next
  case False
  have "AuditJob SG (env\<lparr>pubEvent_stored := stored\<rparr>) reqBody =
     [RpcCall (Addr reqBody) ''DaemonJob.Audit'' \<lparr>args_JobIDs = JobIDs reqBody\<rparr>,
      PubEvent (Join (map dj_Name dreply) '','') event_AuditDaemonJob (Addr reqBody) reqBody
        (stored (Join (map dj_Name dreply) '','') event_AuditDaemonJob (Addr reqBody) reqBody),
      Resp (Succ [] NoData)]"
    using assms(1,2,3) assms(5) [OF False] False
    by (simp add: AuditJob_daemon)
  then show ?thesis by blast
qed

theorem AuditJob_success_ignores_event_store_witness:
  "verify (node_env rootuser) = None
   \<and> verifyNodePermission (node_env rootuser) (Addr (audit_req ''crontab''))
   \<and> (GroupID (claims (node_env rootuser)) = super_ID \<or> Root (claims (node_env rootuser)))
   \<and> JobType (audit_req ''crontab'') = ''crontab''
   \<and> rpcCall_CrontabJob (node_env rootuser) (Addr (audit_req ''crontab'')) ''CrontabJob.Audit''
        \<lparr>args_JobIDs = JobIDs (audit_req ''crontab'')\<rparr> =
        Inr [\<lparr>cj_ID = 1, cj_Name = ''backup''\<rparr>, \<lparr>cj_ID = 2, cj_Name = ''cleanup''\<rparr>]
   \<and> (\<exists>method subject kind.
         AuditJob super_ID ((node_env rootuser)\<lparr>pubEvent_stored := \<lambda>s k a p. False\<rparr>)
             (audit_req ''crontab'') =
           [RpcCall ''10.0.0.9:20001'' method \<lparr>args_JobIDs = [1, 2]\<rparr>,
            PubEvent subject kind ''10.0.0.9:20001'' (audit_req ''crontab'') False,
            Resp (Succ [] NoData)])
   \<and> (\<exists>method subject kind.
         AuditJob super_ID ((node_env rootuser)\<lparr>pubEvent_stored := \<lambda>s k a p. True\<rparr>)
             (audit_req ''crontab'') =
           [RpcCall ''10.0.0.9:20001'' method \<lparr>args_JobIDs = [1, 2]\<rparr>,
            PubEvent subject kind ''10.0.0.9:20001'' (audit_req ''crontab'') True,
            Resp (Succ [] NoData)])"
proof -
  have h1: "verify (node_env rootuser) = None"
    by (simp add: node_env_fields)
  have h2: "verifyNodePermission (node_env rootuser) (Addr (audit_req ''crontab''))"
    by (simp add: node_env_fields audit_req_fields OwnsNode_rootuser)
  have h3: "GroupID (claims (node_env rootuser)) = super_ID \<or> Root (claims (node_env rootuser))"
    by (simp add: node_env_fields rootuser_privileged)
  have h4: "JobType (audit_req ''crontab'') = ''crontab''"
    by (simp add: audit_req_fields)
  have h5: "rpcCall_CrontabJob (node_env rootuser) (Addr (audit_req ''crontab''))
        ''CrontabJob.Audit'' \<lparr>args_JobIDs = JobIDs (audit_req ''crontab'')\<rparr> =
        Inr [\<lparr>cj_ID = 1, cj_Name = ''backup''\<rparr>, \<lparr>cj_ID = 2, cj_Name = ''cleanup''\<rparr>]"
    by (simp add: node_env_rpc audit_req_fields)
  have h6: "JobType (audit_req ''crontab'') \<noteq> ''crontab'' \<Longrightarrow>
        rpcCall_DaemonJob (node_env rootuser) (Addr (audit_req ''crontab'')) ''DaemonJob.Audit''
          \<lparr>args_JobIDs = JobIDs (audit_req ''crontab'')\<rparr> = Inr []"
    by (simp add: audit_req_fields)
  from AuditJob_success_ignores_event_store [OF h1 h2 h3 h5 h6, of "\<lambda>s k a p. False"]
    AuditJob_success_ignores_event_store [OF h1 h2 h3 h5 h6, of "\<lambda>s k a p. True"]
    h1 h2 h3 h4 h5
  show ?thesis
    by (simp add: audit_req_fields)
qed

text \<open>
  C10. A request that passes the three guards issues exactly one remote call:
  \<open>CrontabJob.Audit\<close> when the job type is the string crontab, \<open>DaemonJob.Audit\<close> for
  every other string; no job type is turned away at this branch.
\<close>

theorem AuditJob_one_remote_call:
  assumes "verify env = None" and "verifyNodePermission env (Addr reqBody)"
    and "GroupID (claims env) = SG \<or> Root (claims env)"
  shows "filter is_RpcCall (AuditJob SG env reqBody) =
           [RpcCall (Addr reqBody)
              (if JobType reqBody = ''crontab'' then ''CrontabJob.Audit'' else ''DaemonJob.Audit'')
              \<lparr>args_JobIDs = JobIDs reqBody\<rparr>]"
proof (cases "JobType reqBody = ''crontab''")
  case True
  from AuditJob_crontab [OF assms True] True show ?thesis
    by (simp split: sum.split)
next
  case False
  from AuditJob_daemon [OF assms False] False show ?thesis
    by (simp split: sum.split)
qed

theorem AuditJob_one_remote_call_witness:
  "verify (node_env rootuser) = None
   \<and> verifyNodePermission (node_env rootuser) (Addr (audit_req []))
   \<and> (GroupID (claims (node_env rootuser)) = super_ID \<or> Root (claims (node_env rootuser)))
   \<and> filter is_RpcCall (AuditJob super_ID (node_env rootuser) (audit_req [])) =
        [RpcCall ''10.0.0.9:20001'' ''DaemonJob.Audit'' \<lparr>args_JobIDs = [1, 2]\<rparr>]"
proof -
  have h1: "verify (node_env rootuser) = None"
    by (simp add: node_env_fields)
  have h2: "verifyNodePermission (node_env rootuser) (Addr (audit_req []))"
    by (simp add: node_env_fields audit_req_fields OwnsNode_rootuser)
  have h3: "GroupID (claims (node_env rootuser)) = super_ID \<or> Root (claims (node_env rootuser))"
    by (simp add: node_env_fields rootuser_privileged)
  from AuditJob_one_remote_call [OF h1 h2 h3] h1 h2 h3
  show ?thesis
    by (simp add: audit_req_fields)
qed

section \<open>Login\<close>

lemma Unix_Add_30_days: "Unix (Add t (24 * 30 * Hour)) = Unix t + 30 * 24 * 3600"
proof -
  have "(t + 2592000 * 1000000000) div 1000000000 = t div 1000000000 + 2592000"
    by simp
  then have "(t + 24 * 30 * (3600 * 1000000000)) div 1000000000 = t div 1000000000 + 2592000"
    by simp
  then show ?thesis
    by (simp add: Unix_def Add_def Hour_def)
qed

text \<open>
  C6. When the credential check of line 40 fails, the handler answers with the
  authentication failure built at line 41 and nothing else. \<open>user.Verify\<close> hands the
  handler one boolean, so two failed logins, whatever made each one fail, get the same
  answer.
\<close>

theorem Login_failure_indistinguishable:
  assumes "Valid_Login env1 = None" and "Valid_Login env2 = None"
    and "user_Verify env1 (req_Username r1) (req_Passwd r1) = None"
    and "user_Verify env2 (req_Username r2) (req_Passwd r2) = None"
  shows "Login env1 r1 = Login env2 r2
         \<and> Login env1 r1 = [Resp (AuthFailed ErrAccountOrPasswd)]"
  using assms by (simp add: Login_def)

theorem Login_failure_indistinguishable_witness:
  "Valid_Login login_env = None
   \<and> store ''mallory'' = None
   \<and> user_Verify login_env (req_Username (login_req ''mallory'' ''s3cret'' False))
        (req_Passwd (login_req ''mallory'' ''s3cret'' False)) = None
   \<and> store ''alice'' = Some alice_profile
   \<and> user_Verify login_env (req_Username (login_req ''alice'' ''guess'' False))
        (req_Passwd (login_req ''alice'' ''guess'' False)) = None
   \<and> Login login_env (login_req ''mallory'' ''s3cret'' False) =
       Login login_env (login_req ''alice'' ''guess'' False)
   \<and> Login login_env (login_req ''mallory'' ''s3cret'' False) =
       [Resp (AuthFailed ErrAccountOrPasswd)]"
proof -
  have h1: "Valid_Login login_env = None"
    by (simp add: login_env_def)
  have s1: "store ''mallory'' = None" and s2: "store ''alice'' = Some alice_profile"
    by (simp_all add: store_def)
  have h3: "user_Verify login_env (req_Username (login_req ''mallory'' ''s3cret'' False))
        (req_Passwd (login_req ''mallory'' ''s3cret'' False)) = None"
    by (simp add: login_env_def login_req_def Verify_in_store_def s1)
  have h4: "user_Verify login_env (req_Username (login_req ''alice'' ''guess'' False))
        (req_Passwd (login_req ''alice'' ''guess'' False)) = None"
    by (simp add: login_env_def login_req_def Verify_in_store_def s2 alice_profile_def)
  from Login_failure_indistinguishable [OF h1 h1 h3 h4] h1 s1 s2 h3 h4
  show ?thesis
    by blast
qed

text \<open>
  C7. A login that is answered with success signs one set of claims. Their \<open>ExpiresAt\<close>
  is the configured \<open>cfg.Jwt.Expires\<close> plus the Unix time read at line 45 when
  \<open>Remember\<close> is false, and the Unix time read at line 53 plus the seconds of 30 days
  when it is true. The sums are Go's int64 sums.
\<close>

theorem Login_ExpiresAt:
  assumes "Resp (Succ m d) \<in> set (Login env reqBody)"
  shows "\<exists>cc. filter is_JwtSign (Login env reqBody) = [JwtSign cc (Jwt_SigningKey env)]
           \<and> ExpiresAt cc =
               (if req_Remember reqBody then Unix (Now env 1) + 30 * 24 * 3600
                else Jwt_Expires env + Unix (Now env 0))"
proof -
  have thirty: "Unix (Add t (720 * Hour)) = Unix t + 2592000" for t
    using Unix_Add_30_days [of t] by simp
  from assms show ?thesis
    by (auto simp add: Login_def Let_def thirty split: option.splits sum.splits)
qed

theorem Login_ExpiresAt_witness:
  "Resp (Succ [] (LoginData ''token of alice'' 7 False ''alice@example.org'' 12))
     \<in> set (Login login_env (login_req ''alice'' ''s3cret'' True))
   \<and> (\<exists>cc. filter is_JwtSign (Login login_env (login_req ''alice'' ''s3cret'' True)) =
              [JwtSign cc ''key'']
           \<and> ExpiresAt cc = 1700000001 + 30 * 24 * 3600)
   \<and> Resp (Succ [] (LoginData ''token of alice'' 7 False ''alice@example.org'' 12))
     \<in> set (Login login_env (login_req ''alice'' ''s3cret'' False))
   \<and> (\<exists>cc. filter is_JwtSign (Login login_env (login_req ''alice'' ''s3cret'' False)) =
              [JwtSign cc ''key'']
           \<and> ExpiresAt cc = 3600 + 1700000000)"
proof -
  have v: "user_Verify login_env ''alice'' ''s3cret'' = Some alice_profile"
    by (simp add: login_env_def Verify_in_store_def store_def alice_profile_def)
  have e: "Valid_Login login_env = None" "Jwt_SigningKey login_env = ''key''"
    "Jwt_Expires login_env = 3600"
    "SignedString login_env cl key = Inr (''token of '' @ Username cl)"
    "Unix (Now login_env 0) = 1700000000" "Unix (Now login_env (Suc 0)) = 1700000001"
    for cl key
    by (simp_all add: login_env_def Unix_def)
  have h1: "Resp (Succ [] (LoginData ''token of alice'' 7 False ''alice@example.org'' 12))
     \<in> set (Login login_env (login_req ''alice'' ''s3cret'' True))"
    by (simp add: Login_def Let_def login_req_def v e(1,2,4) alice_profile_def
        zero_CustomerClaims_def)
  have h2: "Resp (Succ [] (LoginData ''token of alice'' 7 False ''alice@example.org'' 12))
     \<in> set (Login login_env (login_req ''alice'' ''s3cret'' False))"
    by (simp add: Login_def Let_def login_req_def v e(1,2,4) alice_profile_def
        zero_CustomerClaims_def)
  from Login_ExpiresAt [OF h1] Login_ExpiresAt [OF h2] h1 h2
  show ?thesis
    by (simp add: e login_req_def)
qed

section \<open>GetUserList\<close>

lemma userlist_env_fields:
  "Valid_GetUserList (userlist_env valid cl) = valid"
  "parseClaimsFromToken (userlist_env valid cl) = Inr cl"
  "runCount (userlist_env valid cl) q = (None, 3)"
  "runFind (userlist_env valid cl) q = (None, [alice_profile])"
  by (simp_all add: userlist_env_def)

lemma users_req_fields:
  "IsAll (users_req isAll gid) = isAll"
  "QueryGroupID (users_req isAll gid) = gid"
  "Page (users_req isAll gid) = 1"
  "Pagesize (users_req isAll gid) = 10"
  by (simp_all add: users_req_def)

lemma GetUserList_queries_ignores_Valid:
  "GetUserList_queries (env\<lparr>Valid_GetUserList := v\<rparr>) reqBody =
     GetUserList_queries env reqBody"
  by (simp add: GetUserList_queries_def Let_def split: prod.split option.split)

lemma GetUserList_from_claims_ignores_Valid:
  "GetUserList_from_claims SG (env\<lparr>Valid_GetUserList := v\<rparr>) reqBody =
     GetUserList_from_claims SG env reqBody"
  by (simp add: GetUserList_from_claims_def GetUserList_queries_ignores_Valid split: sum.split)

lemma GetUserList_queries_allowed:
  "Resp NotAllowed \<notin> set (GetUserList_queries env reqBody)"
  by (simp add: GetUserList_queries_def Let_def split: prod.split option.split)

lemma GetUserList_from_claims_super:
  assumes "parseClaimsFromToken env = Inr cl" and "GroupID cl = SG"
  shows "Resp NotAllowed \<notin> set (GetUserList_from_claims SG env reqBody)"
  using assms
  by (simp add: GetUserList_from_claims_def GetUserList_queries_allowed)

lemma db_failed_None: "db_failed None = None"
  by (simp add: db_failed_def)

lemma db_failed_Some: "db_failed (Some e) = (if e \<noteq> ErrNoRows then Some e else None)"
  by (simp add: db_failed_def)

lemma GetUserList_queries_trace:
  assumes c1: "runCount env (if IsAll rb then CountUsers
                             else CountUsersOfGroup (QueryGroupID rb)) = (err1, tot)"
    and c2: "runFind env (if IsAll rb then FindUsers (Pagesize rb)
                          else FindUsersOfGroup (QueryGroupID rb) (Page rb - 1) (Pagesize rb))
               = (err2, userList)"
  shows "GetUserList_queries env rb =
     (if err1 \<noteq> None \<and> err1 \<noteq> Some ErrNoRows
      then [DB (if IsAll rb then CountUsers else CountUsersOfGroup (QueryGroupID rb)),
            Resp (BasicError (the err1))]
      else if err2 \<noteq> None \<and> err2 \<noteq> Some ErrNoRows
      then [DB (if IsAll rb then CountUsers else CountUsersOfGroup (QueryGroupID rb)),
            DB (if IsAll rb then FindUsers (Pagesize rb)
                else FindUsersOfGroup (QueryGroupID rb) (Page rb - 1) (Pagesize rb)),
            Resp (DBError (the err2))]
      else [DB (if IsAll rb then CountUsers else CountUsersOfGroup (QueryGroupID rb)),
            DB (if IsAll rb then FindUsers (Pagesize rb)
                else FindUsersOfGroup (QueryGroupID rb) (Page rb - 1) (Pagesize rb)),
            Resp (Succ [] (UserListData userList tot (Page rb) (Pagesize rb)))])"
proof (cases err1)
  case None
  show ?thesis
  proof (cases err2)
    case None
    with \<open>err1 = None\<close> c1 c2 show ?thesis
      by (simp add: GetUserList_queries_def Let_def db_failed_None)
  next
    case (Some e2)
    with \<open>err1 = None\<close> c1 c2 show ?thesis
      by (simp add: GetUserList_queries_def Let_def db_failed_None db_failed_Some)
  qed
next
  case (Some e1)
  show ?thesis
  proof (cases err2)
    case None
    with \<open>err1 = Some e1\<close> c1 c2 show ?thesis
      by (simp add: GetUserList_queries_def Let_def db_failed_None db_failed_Some)
  next
    case (Some e2)
    with \<open>err1 = Some e1\<close> c1 c2 show ?thesis
      by (simp add: GetUserList_queries_def Let_def db_failed_Some)
  qed
qed

text \<open>
  C4, as the code has it. Line 376 looks at the group alone: a request for all users is
  let through when the caller's group is the Super Group, whatever the root flag, and is
  answered not allowed for every other group, also when the caller is root.
\<close>

theorem GetUserList_IsAll_needs_super_group:
  assumes "parseClaimsFromToken env = Inr cl" and "IsAll reqBody"
  shows "(GroupID cl = SG \<longrightarrow> Resp NotAllowed \<notin> set (GetUserList SG env reqBody))
         \<and> (GroupID cl \<noteq> SG \<longrightarrow>
              GetUserList_from_claims SG env reqBody = [ParseClaims, Resp NotAllowed])"
proof (intro conjI impI)
  assume "GroupID cl = SG"
  with assms(1) GetUserList_from_claims_super [of env cl SG reqBody]
  show "Resp NotAllowed \<notin> set (GetUserList SG env reqBody)"
    by (simp add: GetUserList_def split: option.split)
next
  assume "GroupID cl \<noteq> SG"
  with assms show "GetUserList_from_claims SG env reqBody = [ParseClaims, Resp NotAllowed]"
    by (simp add: GetUserList_from_claims_def)
qed

theorem GetUserList_IsAll_needs_super_group_witness:
  "parseClaimsFromToken (userlist_env None superuser) = Inr superuser
   \<and> IsAll (users_req True 0)
   \<and> GroupID superuser = super_ID \<and> \<not> Root superuser
   \<and> Resp NotAllowed
         \<notin> set (GetUserList super_ID (userlist_env None superuser) (users_req True 0))
   \<and> GetUserList super_ID (userlist_env None superuser) (users_req True 0) =
       [ParseClaims, DB CountUsers, DB (FindUsers 10),
        Resp (Succ [] (UserListData [alice_profile] 3 1 10))]
   \<and> parseClaimsFromToken (userlist_env None alice) = Inr alice
   \<and> GroupID alice \<noteq> super_ID
   \<and> GetUserList_from_claims super_ID (userlist_env None alice) (users_req True 0) =
       [ParseClaims, Resp NotAllowed]"
proof -
  have h1: "parseClaimsFromToken (userlist_env None superuser) = Inr superuser"
    by (simp add: userlist_env_fields)
  have h2: "IsAll (users_req True 0)"
    by (simp add: users_req_fields)
  have h3: "GroupID superuser = super_ID" "\<not> Root superuser"
    by (simp_all add: superuser_def super_ID_def)
  have t: "GetUserList super_ID (userlist_env None superuser) (users_req True 0) =
       [ParseClaims, DB CountUsers, DB (FindUsers 10),
        Resp (Succ [] (UserListData [alice_profile] 3 1 10))]"
    by (simp add: GetUserList_def GetUserList_from_claims_def GetUserList_queries_def Let_def
        userlist_env_fields users_req_def h3 db_failed_def)
  have k1: "parseClaimsFromToken (userlist_env None alice) = Inr alice"
    by (simp add: userlist_env_fields)
  have k3: "GroupID alice \<noteq> super_ID"
    by (simp add: alice_def super_ID_def)
  note a = GetUserList_IsAll_needs_super_group [OF h1 h2, of super_ID]
  note b = GetUserList_IsAll_needs_super_group [OF k1 h2, of super_ID]
  show ?thesis
    by (intro conjI)
      (rule h1, rule h2, rule h3(1), rule h3(2), rule a [THEN conjunct1, rule_format, OF h3(1)],
       rule t, rule k1, rule k3, rule b [THEN conjunct2, rule_format, OF k3])
qed

text \<open>
  C4, as the specification states it, fails: the caller has the root flag and belongs to
  group 9; the request for all users passes validation and claims parsing and is answered
  not allowed at line 377.
\<close>

theorem GetUserList_root_rejected_counterexample:
  "Root rootuser
   \<and> IsAll (users_req True 0)
   \<and> GetUserList super_ID (userlist_env None rootuser) (users_req True 0) =
       [ParseClaims, Resp NotAllowed]"
  by (simp add: GetUserList_def GetUserList_from_claims_def userlist_env_fields
      users_req_fields rootuser_def super_ID_def)

text \<open>
  C9. When \<open>ctx.Valid\<close> fails, the handler writes the parameter error and does not
  return. It then parses the claims (a failure there ends the request with the JWT error);
  it applies the check of line 376 and the check of line 381, each of which answers not
  allowed; it defaults \<open>QueryGroupID\<close> as line 386 does; it runs the count query and, unless
  that failed with an error other than \<open>sql.ErrNoRows\<close>, the find query, and answers with
  the database error or with the list. All of it follows the parameter error in the trace
  of the invalid request, which is the parameter error followed by the trace of the same
  request had it passed validation.
\<close>

theorem GetUserList_continues_after_param_error:
  assumes "Valid_GetUserList env = Some err"
  shows "GetUserList SG env reqBody =
           Resp (ParamError err) # GetUserList SG (env\<lparr>Valid_GetUserList := None\<rparr>) reqBody
         \<and> (\<forall>e. parseClaimsFromToken env = Inl e \<longrightarrow>
                GetUserList SG env reqBody =
                  [Resp (ParamError err), ParseClaims, Resp (JWTError e)])
         \<and> (\<forall>cl. parseClaimsFromToken env = Inr cl \<longrightarrow>
               (if IsAll reqBody \<and> GroupID cl \<noteq> SG
                then GetUserList SG env reqBody =
                       [Resp (ParamError err), ParseClaims, Resp NotAllowed]
                else if \<not> IsAll reqBody \<and> QueryGroupID reqBody \<noteq> GroupID cl
                        \<and> GroupID cl \<noteq> SG
                then GetUserList SG env reqBody =
                       [Resp (ParamError err), ParseClaims, Resp NotAllowed]
                else
                  (let gid = (if QueryGroupID reqBody = 0 then GroupID cl
                              else QueryGroupID reqBody);
                       q1 = (if IsAll reqBody then CountUsers else CountUsersOfGroup gid);
                       q2 = (if IsAll reqBody then FindUsers (Pagesize reqBody)
                             else FindUsersOfGroup gid (Page reqBody - 1) (Pagesize reqBody));
                       (err1, total) = runCount env q1;
                       (err2, userList) = runFind env q2
                   in GetUserList SG env reqBody =
                        (if err1 \<noteq> None \<and> err1 \<noteq> Some ErrNoRows
                         then [Resp (ParamError err), ParseClaims, DB q1,
                               Resp (BasicError (the err1))]
                         else if err2 \<noteq> None \<and> err2 \<noteq> Some ErrNoRows
                         then [Resp (ParamError err), ParseClaims, DB q1, DB q2,
                               Resp (DBError (the err2))]
                         else [Resp (ParamError err), ParseClaims, DB q1, DB q2,
                               Resp (Succ [] (UserListData userList total
                                                (Page reqBody) (Pagesize reqBody)))]))))"
proof (intro conjI allI impI)
  from assms show "GetUserList SG env reqBody =
      Resp (ParamError err) # GetUserList SG (env\<lparr>Valid_GetUserList := None\<rparr>) reqBody"
    by (simp add: GetUserList_def GetUserList_from_claims_ignores_Valid)
next
  fix e assume "parseClaimsFromToken env = Inl e"
  with assms show "GetUserList SG env reqBody =
      [Resp (ParamError err), ParseClaims, Resp (JWTError e)]"
    by (simp add: GetUserList_def GetUserList_from_claims_def)
next
  fix cl assume cl: "parseClaimsFromToken env = Inr cl"
  define rb where "rb = (if QueryGroupID reqBody = 0
                          then reqBody\<lparr>QueryGroupID := GroupID cl\<rparr> else reqBody)"
  have rb: "IsAll rb = IsAll reqBody" "Page rb = Page reqBody" "Pagesize rb = Pagesize reqBody"
    "QueryGroupID rb = (if QueryGroupID reqBody = 0 then GroupID cl else QueryGroupID reqBody)"
    by (simp_all add: rb_def)
  obtain err1 tot where c1: "runCount env (if IsAll rb then CountUsers
                             else CountUsersOfGroup (QueryGroupID rb)) = (err1, tot)"
    by (cases "runCount env (if IsAll rb then CountUsers
                             else CountUsersOfGroup (QueryGroupID rb))") blast
  obtain err2 userList where c2: "runFind env (if IsAll rb then FindUsers (Pagesize rb)
                          else FindUsersOfGroup (QueryGroupID rb) (Page rb - 1) (Pagesize rb))
               = (err2, userList)"
    by (cases "runFind env (if IsAll rb then FindUsers (Pagesize rb)
                          else FindUsersOfGroup (QueryGroupID rb) (Page rb - 1) (Pagesize rb))")
      blast
  have body: "GetUserList SG env reqBody =
      Resp (ParamError err) # ParseClaims #
        (if IsAll reqBody \<and> GroupID cl \<noteq> SG then [Resp NotAllowed]
         else if \<not> IsAll reqBody \<and> QueryGroupID reqBody \<noteq> GroupID cl \<and> GroupID cl \<noteq> SG
         then [Resp NotAllowed]
         else GetUserList_queries env rb)"
    using assms cl by (simp add: GetUserList_def GetUserList_from_claims_def rb_def)
  note q = GetUserList_queries_trace [OF c1 c2]
  show "if IsAll reqBody \<and> GroupID cl \<noteq> SG
        then GetUserList SG env reqBody =
               [Resp (ParamError err), ParseClaims, Resp NotAllowed]
        else if \<not> IsAll reqBody \<and> QueryGroupID reqBody \<noteq> GroupID cl \<and> GroupID cl \<noteq> SG
        then GetUserList SG env reqBody =
               [Resp (ParamError err), ParseClaims, Resp NotAllowed]
        else
          (let gid = (if QueryGroupID reqBody = 0 then GroupID cl else QueryGroupID reqBody);
               q1 = (if IsAll reqBody then CountUsers else CountUsersOfGroup gid);
               q2 = (if IsAll reqBody then FindUsers (Pagesize reqBody)
                     else FindUsersOfGroup gid (Page reqBody - 1) (Pagesize reqBody));
               (err1, total) = runCount env q1;
               (err2, userList) = runFind env q2
           in GetUserList SG env reqBody =
                (if err1 \<noteq> None \<and> err1 \<noteq> Some ErrNoRows
                 then [Resp (ParamError err), ParseClaims, DB q1,
                       Resp (BasicError (the err1))]
                 else if err2 \<noteq> None \<and> err2 \<noteq> Some ErrNoRows
                 then [Resp (ParamError err), ParseClaims, DB q1, DB q2,
                       Resp (DBError (the err2))]
                 else [Resp (ParamError err), ParseClaims, DB q1, DB q2,
                       Resp (Succ [] (UserListData userList total
                                        (Page reqBody) (Pagesize reqBody)))]))"
  proof (cases "IsAll reqBody \<and> GroupID cl \<noteq> SG")
    case True
    with body show ?thesis by simp
  next
    case g1: False
    show ?thesis
    proof (cases "\<not> IsAll reqBody \<and> QueryGroupID reqBody \<noteq> GroupID cl \<and> GroupID cl \<noteq> SG")
      case True
      with g1 body show ?thesis by simp
    next
      case g2: False
      have "GetUserList SG env reqBody =
          Resp (ParamError err) # ParseClaims # GetUserList_queries env rb"
        by (simp only: body g1 g2 if_False)
      with q have t: "GetUserList SG env reqBody =
          Resp (ParamError err) # ParseClaims #
          (if err1 \<noteq> None \<and> err1 \<noteq> Some ErrNoRows
           then [DB (if IsAll rb then CountUsers else CountUsersOfGroup (QueryGroupID rb)),
                 Resp (BasicError (the err1))]
           else if err2 \<noteq> None \<and> err2 \<noteq> Some ErrNoRows
           then [DB (if IsAll rb then CountUsers else CountUsersOfGroup (QueryGroupID rb)),
                 DB (if IsAll rb then FindUsers (Pagesize rb)
                     else FindUsersOfGroup (QueryGroupID rb) (Page rb - 1) (Pagesize rb)),
                 Resp (DBError (the err2))]
           else [DB (if IsAll rb then CountUsers else CountUsersOfGroup (QueryGroupID rb)),
                 DB (if IsAll rb then FindUsers (Pagesize rb)
                     else FindUsersOfGroup (QueryGroupID rb) (Page rb - 1) (Pagesize rb)),
                 Resp (Succ [] (UserListData userList tot (Page rb) (Pagesize rb)))])"
        by simp
      have c1': "runCount env (if IsAll reqBody then CountUsers
           else CountUsersOfGroup (if QueryGroupID reqBody = 0 then GroupID cl
                                   else QueryGroupID reqBody)) = (err1, tot)"
        using c1 by (simp only: rb)
      have c2': "runFind env (if IsAll reqBody then FindUsers (Pagesize reqBody)
           else FindUsersOfGroup (if QueryGroupID reqBody = 0 then GroupID cl
                                  else QueryGroupID reqBody)
                  (Page reqBody - 1) (Pagesize reqBody)) = (err2, userList)"
        using c2 by (simp only: rb)
      have t': "GetUserList SG env reqBody =
          (if err1 \<noteq> None \<and> err1 \<noteq> Some ErrNoRows
           then [Resp (ParamError err), ParseClaims,
                 DB (if IsAll reqBody then CountUsers
                     else CountUsersOfGroup (if QueryGroupID reqBody = 0 then GroupID cl
                                             else QueryGroupID reqBody)),
                 Resp (BasicError (the err1))]
           else if err2 \<noteq> None \<and> err2 \<noteq> Some ErrNoRows
           then [Resp (ParamError err), ParseClaims,
                 DB (if IsAll reqBody then CountUsers
                     else CountUsersOfGroup (if QueryGroupID reqBody = 0 then GroupID cl
                                             else QueryGroupID reqBody)),
                 DB (if IsAll reqBody then FindUsers (Pagesize reqBody)
                     else FindUsersOfGroup (if QueryGroupID reqBody = 0 then GroupID cl
                                            else QueryGroupID reqBody)
                            (Page reqBody - 1) (Pagesize reqBody)),
                 Resp (DBError (the err2))]
           else [Resp (ParamError err), ParseClaims,
                 DB (if IsAll reqBody then CountUsers
                     else CountUsersOfGroup (if QueryGroupID reqBody = 0 then GroupID cl
                                             else QueryGroupID reqBody)),
                 DB (if IsAll reqBody then FindUsers (Pagesize reqBody)
                     else FindUsersOfGroup (if QueryGroupID reqBody = 0 then GroupID cl
                                            else QueryGroupID reqBody)
                            (Page reqBody - 1) (Pagesize reqBody)),
                 Resp (Succ [] (UserListData userList tot (Page reqBody) (Pagesize reqBody)))])"
        unfolding t rb by (simp only: if_distrib [of "\<lambda>xs. Resp (ParamError err) # ParseClaims # xs"]
            if_True if_False)
      from g1 g2 show ?thesis
        unfolding Let_def c1' c2' prod.case
        using t' by (simp only: if_False)
    qed
  qed
qed

theorem GetUserList_continues_after_param_error_witness:
  "Valid_GetUserList (userlist_env (Some (ErrOther ''bad request'')) alice) =
     Some (ErrOther ''bad request'')
   \<and> GetUserList super_ID (userlist_env (Some (ErrOther ''bad request'')) alice)
       (users_req True 0) =
       [Resp (ParamError (ErrOther ''bad request'')), ParseClaims, Resp NotAllowed]
   \<and> GetUserList super_ID (userlist_env (Some (ErrOther ''bad request'')) alice)
       (users_req False 9) =
       [Resp (ParamError (ErrOther ''bad request'')), ParseClaims, Resp NotAllowed]
   \<and> GetUserList super_ID (userlist_env (Some (ErrOther ''bad request'')) alice)
       (users_req False 7) =
       [Resp (ParamError (ErrOther ''bad request'')), ParseClaims,
        DB (CountUsersOfGroup 7), DB (FindUsersOfGroup 7 0 10),
        Resp (Succ [] (UserListData [alice_profile] 3 1 10))]
   \<and> GetUserList super_ID (userlist_env (Some (ErrOther ''bad request'')) superuser)
       (users_req False 0) =
       [Resp (ParamError (ErrOther ''bad request'')), ParseClaims,
        DB (CountUsersOfGroup 1), DB (FindUsersOfGroup 1 0 10),
        Resp (Succ [] (UserListData [alice_profile] 3 1 10))]"
proof -
  have h: "Valid_GetUserList (userlist_env (Some (ErrOther ''bad request'')) cl) =
     Some (ErrOther ''bad request'')" for cl
    by (simp add: userlist_env_fields)
  have g: "GroupID alice = 7" "GroupID superuser = 1" "super_ID = 1"
    by (simp_all add: alice_def superuser_def super_ID_def)
  from GetUserList_continues_after_param_error [OF h [of alice], of super_ID "users_req True 0",
      THEN conjunct2, THEN conjunct2, rule_format, OF userlist_env_fields(2)]
  have t1: "GetUserList super_ID (userlist_env (Some (ErrOther ''bad request'')) alice)
       (users_req True 0) =
       [Resp (ParamError (ErrOther ''bad request'')), ParseClaims, Resp NotAllowed]"
    by (simp add: users_req_fields g)
  from GetUserList_continues_after_param_error [OF h [of alice], of super_ID "users_req False 9",
      THEN conjunct2, THEN conjunct2, rule_format, OF userlist_env_fields(2)]
  have t2: "GetUserList super_ID (userlist_env (Some (ErrOther ''bad request'')) alice)
       (users_req False 9) =
       [Resp (ParamError (ErrOther ''bad request'')), ParseClaims, Resp NotAllowed]"
    by (simp add: users_req_fields g)
  from GetUserList_continues_after_param_error [OF h [of alice], of super_ID "users_req False 7",
      THEN conjunct2, THEN conjunct2, rule_format, OF userlist_env_fields(2)]
  have t3: "GetUserList super_ID (userlist_env (Some (ErrOther ''bad request'')) alice)
       (users_req False 7) =
       [Resp (ParamError (ErrOther ''bad request'')), ParseClaims,
        DB (CountUsersOfGroup 7), DB (FindUsersOfGroup 7 0 10),
        Resp (Succ [] (UserListData [alice_profile] 3 1 10))]"
    by (simp add: users_req_fields userlist_env_fields g)
  from GetUserList_continues_after_param_error [OF h [of superuser], of super_ID "users_req False 0",
      THEN conjunct2, THEN conjunct2, rule_format, OF userlist_env_fields(2)]
  have t4: "GetUserList super_ID (userlist_env (Some (ErrOther ''bad request'')) superuser)
       (users_req False 0) =
       [Resp (ParamError (ErrOther ''bad request'')), ParseClaims,
        DB (CountUsersOfGroup 1), DB (FindUsersOfGroup 1 0 10),
        Resp (Succ [] (UserListData [alice_profile] 3 1 10))]"
    by (simp add: users_req_fields userlist_env_fields g)
  show ?thesis
    by (intro conjI) (rule h, rule t1, rule t2, rule t3, rule t4)
qed

end
